theory Spec2Isabelle
  imports Main
begin

section \<open>JavaScript values used by the hooks\<close>

text \<open>
  A thrown value is either an \<open>Error\<close> instance carrying a message or something else
  (\<open>connectWallet\<close> tests \<open>err instanceof Error\<close>). Every awaited call of the hooks
  either throws or returns.
\<close>

datatype js_error = ErrorObj string | NonError

datatype 'a outcome = Throws js_error | Returns 'a

text \<open>
  An optional string (\<open>undefined\<close> is \<open>None\<close>). JavaScript truthiness of such a value:
  \<open>undefined\<close> and the empty string are falsy.
\<close>

definition truthy :: "string option \<Rightarrow> bool" where
  "truthy v = (case v of None \<Rightarrow> False | Some s \<Rightarrow> s \<noteq> [])"

text \<open>\<open>a || b\<close>: the left operand when it is truthy, the right one otherwise.\<close>

definition js_or :: "string option \<Rightarrow> string option \<Rightarrow> string option" where
  "js_or a b = (if truthy a then a else b)"

section \<open>Data model of \<open>useUser.ts\<close>\<close>

text \<open>\<open>location?: { placeId?: string; description?: string } | null\<close>\<close>

datatype location_ref = NullLocation | Place "string option" "string option"

text \<open>\<open>interface FarcasterUser\<close> (lines 31-41).\<close>

record FarcasterUser =
  fid :: int
  primaryAddress :: "string option"
  displayName :: "string option"
  username :: "string option"
  pfpUrl :: "string option"
  location :: "location_ref option"

text \<open>\<open>interface UserData\<close> (lines 43-62).\<close>

record UserData =
  address :: "string option"
  fid :: "int option"
  username :: "string option"
  displayName :: "string option"
  pfpUrl :: "string option"
  location :: "location_ref option"
  isMiniApp :: bool
  isLoading :: bool
  isWalletConnected :: bool
  error :: "string option"

text \<open>
  The body of \<open>/api/me\<close> as the hook reads it: \<open>null\<close>, or an object whose optional
  \<open>primaryAddress\<close> is a string. \<open>apiUserData\<close> starts as \<open>null\<close> (line 94).
\<close>

datatype api_data = ApiNull | ApiObject "string option"

text \<open>\<open>apiUserData?.primaryAddress\<close>\<close>

definition api_primaryAddress :: "api_data \<Rightarrow> string option" where
  "api_primaryAddress d = (case d of ApiNull \<Rightarrow> None | ApiObject a \<Rightarrow> a)"

text \<open>The response of \<open>sdk.quickAuth.fetch\<close>: its \<open>ok\<close> flag and what \<open>res.json()\<close> does.\<close>

datatype response = Response (ok: bool) (json: "api_data outcome")

section \<open>The surroundings of one resolution attempt\<close>

text \<open>The awaited calls, in program order.\<close>

datatype call = IsInMiniApp | SdkContext | QuickAuthFetch | ResJson | EthRequestAccounts

fun call_ix :: "call \<Rightarrow> nat" where
  "call_ix IsInMiniApp = 0"
| "call_ix SdkContext = 1"
| "call_ix QuickAuthFetch = 2"
| "call_ix ResJson = 3"
| "call_ix EthRequestAccounts = 4"

text \<open>
  What the collaborators answer during one run of the effect, and the values the effect
  closes over:
  \<^item> \<open>isInMiniApp\<close>: \<open>sdk.isInMiniApp()\<close>;
  \<^item> \<open>sdkContext\<close>: \<open>(await sdk.context).user\<close>, \<open>None\<close> for \<open>null\<close>;
  \<^item> \<open>quickAuthFetch\<close>: \<open>sdk.quickAuth.fetch("/api/me")\<close>;
  \<^item> \<open>ethProvider\<close>: \<open>None\<close> when \<open>sdk.wallet.ethProvider\<close> is falsy, otherwise what
    \<open>request({method: 'eth_requestAccounts'})\<close> does; the accounts are \<open>None\<close> when the
    provider answers \<open>null\<close>/\<open>undefined\<close>;
  \<^item> \<open>connectors\<close>: the ids of wagmi's connectors; \<open>isConnected\<close>, \<open>walletAddress\<close>:
    wagmi's \<open>useAccount()\<close>;
  \<^item> \<open>cancelledDuring\<close>: the await during which the effect's cleanup runs
    (\<open>isMounted = false\<close>, lines 195-197), \<open>None\<close> when it does not run before the
    attempt ends.
\<close>

record env =
  isInMiniApp :: "bool outcome"
  sdkContext :: "FarcasterUser option outcome"
  quickAuthFetch :: "response outcome"
  ethProvider :: "string list option outcome option"
  connectors :: "string list"
  isConnected :: bool
  walletAddress :: "string option"
  cancelledDuring :: "call option"

text \<open>The value of \<open>isMounted\<close> read right after the await of call \<open>c\<close> has settled.\<close>

definition isMounted :: "env \<Rightarrow> call \<Rightarrow> bool" where
  "isMounted e c = (case cancelledDuring e of None \<Rightarrow> True | Some d \<Rightarrow> call_ix c < call_ix d)"

section \<open>Effects\<close>

text \<open>
  What an attempt does to the outside, in order: \<open>SetLoading\<close> is the updater of line 80,
  \<open>SetUserData r\<close> is \<open>setUserData(r)\<close>, \<open>Await c\<close> is the call \<open>c\<close> being issued and
  awaited, \<open>Connect c\<close> is wagmi's \<open>connect({connector: c})\<close>, \<open>Ready\<close> is
  \<open>sdk.actions.ready()\<close>. \<open>SetIsConnecting\<close> and \<open>SetError\<close> are the state setters of
  \<open>useFarcasterWallet\<close>. The state setters, \<open>connect\<close>, the console and the
  fire-and-forget \<open>ready\<close> return without throwing; only the awaited calls can throw.
\<close>

datatype effect =
    SetLoading
  | SetUserData UserData
  | Await call
  | Connect string
  | Ready
  | ConsoleLog
  | ConsoleWarn
  | ConsoleError
  | SetIsConnecting bool
  | SetError "string option"

text \<open>The state of \<open>useState<UserData>\<close> (lines 65-69) and what each effect does to it.\<close>

definition initial_state :: UserData where
  "initial_state = \<lparr>address = None, fid = None, username = None, displayName = None,
     pfpUrl = None, location = None, isMiniApp = False, isLoading = True,
     isWalletConnected = False, error = None\<rparr>"

fun apply_effect :: "effect \<Rightarrow> UserData \<Rightarrow> UserData" where
  "apply_effect SetLoading s = s\<lparr>isLoading := True, error := None\<rparr>"
| "apply_effect (SetUserData r) s = r"
| "apply_effect _ s = s"

fun run_effects :: "effect list \<Rightarrow> UserData \<Rightarrow> UserData" where
  "run_effects [] s = s"
| "run_effects (x # xs) s = run_effects xs (apply_effect x s)"

section \<open>\<open>initializeUser\<close> (useUser.ts, lines 78-191)\<close>

text \<open>Lines 94-105: the supplementary profile; every failure leaves \<open>apiUserData = null\<close>.\<close>

definition fetchApiUserData :: "env \<Rightarrow> effect list \<times> api_data" where
  "fetchApiUserData e =
     (case quickAuthFetch e of
        Throws x \<Rightarrow> ([Await QuickAuthFetch, ConsoleWarn], ApiNull)
      | Returns res \<Rightarrow>
          (if ok res then
             (case json res of
                Throws x \<Rightarrow> ([Await QuickAuthFetch, Await ResJson, ConsoleWarn], ApiNull)
              | Returns d \<Rightarrow> ([Await QuickAuthFetch, Await ResJson], d))
           else ([Await QuickAuthFetch], ApiNull)))"

text \<open>Lines 125-128: activate the \<open>farcasterMiniApp\<close> connector unless already connected.\<close>

definition activateConnector :: "env \<Rightarrow> effect list" where
  "activateConnector e =
     (case find (\<lambda>c. c = ''farcasterMiniApp'') (connectors e) of
        None \<Rightarrow> []
      | Some c \<Rightarrow> (if \<not> isConnected e then [Connect c] else []))"

text \<open>
  Lines 112-134: the wallet access request. The second component is \<open>connectedAddress\<close>
  afterwards; it starts as the hint of line 110.
\<close>

definition autoConnect :: "env \<Rightarrow> string option \<Rightarrow> effect list \<times> string option" where
  "autoConnect e hint =
     (case ethProvider e of
        None \<Rightarrow> ([], hint)
      | Some req \<Rightarrow>
          (case req of
             Throws x \<Rightarrow> ([Await EthRequestAccounts, ConsoleWarn], hint)
           | Returns None \<Rightarrow> ([Await EthRequestAccounts], hint)
           | Returns (Some []) \<Rightarrow> ([Await EthRequestAccounts], hint)
           | Returns (Some (a # as)) \<Rightarrow>
               (Await EthRequestAccounts # ConsoleLog # activateConnector e, Some a)))"

text \<open>Lines 136-146: the record committed on the host path.\<close>

definition hostRecord :: "FarcasterUser \<Rightarrow> string option \<Rightarrow> UserData" where
  "hostRecord u connectedAddress =
     \<lparr>address = connectedAddress,
      fid = Some (FarcasterUser.fid u),
      username = FarcasterUser.username u,
      displayName = FarcasterUser.displayName u,
      pfpUrl = FarcasterUser.pfpUrl u,
      location = FarcasterUser.location u,
      isMiniApp = True, isLoading = False,
      isWalletConnected = truthy connectedAddress,
      error = None\<rparr>"

text \<open>Lines 151-156, 161-166 and 183-188: the records that carry an error.\<close>

definition errorRecord :: "bool \<Rightarrow> string \<Rightarrow> UserData" where
  "errorRecord mini msg =
     \<lparr>address = None, fid = None, username = None, displayName = None, pfpUrl = None,
      location = None, isMiniApp = mini, isLoading = False, isWalletConnected = False,
      error = Some msg\<rparr>"

text \<open>Lines 172-177: the record of the regular browser flow.\<close>

definition browserRecord :: "env \<Rightarrow> UserData" where
  "browserRecord e =
     \<lparr>address = (if isConnected e \<and> truthy (walletAddress e) then walletAddress e else None),
      fid = None, username = None, displayName = None, pfpUrl = None, location = None,
      isMiniApp = False, isLoading = False, isWalletConnected = isConnected e,
      error = None\<rparr>"

text \<open>Line 110: \<open>farcasterUser.primaryAddress || apiUserData?.primaryAddress\<close>\<close>

definition addressHint :: "FarcasterUser \<Rightarrow> api_data \<Rightarrow> string option" where
  "addressHint u apiUserData =
     js_or (FarcasterUser.primaryAddress u) (api_primaryAddress apiUserData)"

text \<open>Lines 93-149: the branch taken when the user is present and \<open>isMounted\<close> holds.\<close>

definition userFlow :: "env \<Rightarrow> FarcasterUser \<Rightarrow> effect list" where
  "userFlow e u =
     (let (fx, apiUserData) = fetchApiUserData e;
          (wx, connectedAddress) = autoConnect e (addressHint u apiUserData)
      in fx @ wx @ [SetUserData (hostRecord u connectedAddress), Ready])"

text \<open>Lines 87-168: the miniapp flow.\<close>

definition hostFlow :: "env \<Rightarrow> effect list" where
  "hostFlow e =
     Await SdkContext #
     (case sdkContext e of
        Throws x \<Rightarrow>
          ConsoleError #
          (if isMounted e SdkContext
           then [SetUserData (errorRecord True ''Farcaster authentication failed'')] else [])
      | Returns None \<Rightarrow>
          (if isMounted e SdkContext
           then [SetUserData (errorRecord True ''Unable to get user data from Farcaster'')]
           else [])
      | Returns (Some u) \<Rightarrow>
          (if isMounted e SdkContext then userFlow e u else []))"

definition initializeUser :: "env \<Rightarrow> effect list" where
  "initializeUser e =
     SetLoading # Await IsInMiniApp #
     (case isInMiniApp e of
        Throws x \<Rightarrow>
          ConsoleError #
          (if isMounted e IsInMiniApp
           then [SetUserData (errorRecord False ''Failed to initialize user data'')] else [])
      | Returns True \<Rightarrow> hostFlow e
      | Returns False \<Rightarrow>
          (if isMounted e IsInMiniApp then [SetUserData (browserRecord e)] else []))"

text \<open>
  An attempt is suspended at each \<open>Await\<close>. \<open>before_await c tr\<close> is the part of the trace
  \<open>tr\<close> up to and including the first \<open>Await c\<close> (all of it when the call is never made),
  \<open>after_await c tr\<close> is what follows once that call has settled.
\<close>

definition await_pos :: "call \<Rightarrow> effect list \<Rightarrow> nat" where
  "await_pos c tr = Suc (length (takeWhile (\<lambda>x. x \<noteq> Await c) tr))"

definition before_await :: "call \<Rightarrow> effect list \<Rightarrow> effect list" where
  "before_await c tr = take (await_pos c tr) tr"

definition after_await :: "call \<Rightarrow> effect list \<Rightarrow> effect list" where
  "after_await c tr = drop (await_pos c tr) tr"

text \<open>
  \<open>live_effects\<close>: what an attempt does until the await during which its cleanup runs;
  \<open>stale_effects\<close>: what it still does after that await has settled, as a superseded
  attempt.
\<close>

definition live_effects :: "env \<Rightarrow> effect list" where
  "live_effects e =
     (case cancelledDuring e of
        None \<Rightarrow> initializeUser e
      | Some c \<Rightarrow> before_await c (initializeUser e))"

definition stale_effects :: "env \<Rightarrow> effect list" where
  "stale_effects e =
     (case cancelledDuring e of None \<Rightarrow> [] | Some c \<Rightarrow> after_await c (initializeUser e))"

text \<open>
  The schedule of a re-triggered effect: attempt \<open>e1\<close> runs until the await during which
  its cleanup runs, the new attempt \<open>e2\<close> runs to its end, then the pending call of
  \<open>e1\<close> settles and \<open>e1\<close> continues.
\<close>

definition superseded_schedule :: "env \<Rightarrow> env \<Rightarrow> effect list" where
  "superseded_schedule e1 e2 = live_effects e1 @ initializeUser e2 @ stale_effects e1"

section \<open>\<open>connectWallet\<close> (useFarcasterWallet, lines 56-111)\<close>

text \<open>\<open>err instanceof Error ? err.message : 'Failed to connect wallet'\<close>\<close>

definition error_message :: "js_error \<Rightarrow> string" where
  "error_message x = (case x of ErrorObj m \<Rightarrow> m | NonError \<Rightarrow> ''Failed to connect wallet'')"

text \<open>Lines 97-100: here the connector is activated whenever it is found.\<close>

definition activateConnectorAlways :: "env \<Rightarrow> effect list" where
  "activateConnectorAlways e =
     (case find (\<lambda>c. c = ''farcasterMiniApp'') (connectors e) of
        None \<Rightarrow> []
      | Some c \<Rightarrow> [Connect c])"

text \<open>The effects of one call and the address it resolves to (\<open>None\<close> for \<open>null\<close>).\<close>

definition connectWallet :: "env \<Rightarrow> effect list \<times> string option" where
  "connectWallet e =
     (if isConnected e \<and> truthy (walletAddress e) then ([], walletAddress e)
      else
        (case isInMiniApp e of
           Throws x \<Rightarrow>
             ([SetIsConnecting True, SetError None, Await IsInMiniApp, ConsoleError,
               SetError (Some (error_message x)), SetIsConnecting False], None)
         | Returns False \<Rightarrow>
             ([SetIsConnecting True, SetError None, Await IsInMiniApp,
               SetError (Some ''Not running in a Farcaster miniapp''),
               SetIsConnecting False], None)
         | Returns True \<Rightarrow>
             (case ethProvider e of
                None \<Rightarrow>
                  ([SetIsConnecting True, SetError None, Await IsInMiniApp,
                    SetError (Some ''Farcaster wallet provider not available''),
                    SetIsConnecting False], None)
              | Some req \<Rightarrow>
                  (case req of
                     Throws x \<Rightarrow>
                       ([SetIsConnecting True, SetError None, Await IsInMiniApp,
                         Await EthRequestAccounts, ConsoleError,
                         SetError (Some (error_message x)), SetIsConnecting False], None)
                   | Returns None \<Rightarrow>
                       ([SetIsConnecting True, SetError None, Await IsInMiniApp,
                         Await EthRequestAccounts,
                         SetError (Some ''No accounts returned from wallet''),
                         SetIsConnecting False], None)
                   | Returns (Some []) \<Rightarrow>
                       ([SetIsConnecting True, SetError None, Await IsInMiniApp,
                         Await EthRequestAccounts,
                         SetError (Some ''No accounts returned from wallet''),
                         SetIsConnecting False], None)
                   | Returns (Some (a # as)) \<Rightarrow>
                       ([SetIsConnecting True, SetError None, Await IsInMiniApp,
                         Await EthRequestAccounts, ConsoleLog]
                        @ activateConnectorAlways e @ [SetIsConnecting False], Some a)))))"

section \<open>Reachable states of the hook\<close>

text \<open>
  The state of the hook starts as \<open>initial_state\<close> and changes only through the effects of
  attempts; attempts of successive renders may interleave at their awaits, so any effect of
  any attempt may come next.
\<close>

inductive reachable :: "UserData \<Rightarrow> bool" where
  init: "reachable initial_state"
| step: "reachable s \<Longrightarrow> x \<in> set (initializeUser e) \<Longrightarrow> reachable (apply_effect x s)"

section \<open>Address formats named by the specification\<close>

definition is_hex_char :: "char \<Rightarrow> bool" where
  "is_hex_char c = (c \<in> set ''0123456789abcdefABCDEF'')"

definition is_lower_hex_char :: "char \<Rightarrow> bool" where
  "is_lower_hex_char c = (c \<in> set ''0123456789abcdef'')"

text \<open>\<open>0x\<close> followed by 40 hexadecimal characters.\<close>

definition well_formed_address :: "string \<Rightarrow> bool" where
  "well_formed_address a =
     (take 2 a = ''0x'' \<and> length a = 42 \<and> list_all is_hex_char (drop 2 a))"

text \<open>A 20-byte address as a lowercase hex string with \<open>0x\<close> prefix.\<close>

definition lowercase_address :: "string \<Rightarrow> bool" where
  "lowercase_address a =
     (take 2 a = ''0x'' \<and> length a = 42 \<and> list_all is_lower_hex_char (drop 2 a))"

section \<open>Concrete attempts\<close>

definition userA :: FarcasterUser where
  "userA = \<lparr>FarcasterUser.fid = 1, primaryAddress = None, displayName = Some ''Alice'',
     username = Some ''alice'', pfpUrl = None, location = None\<rparr>"

text \<open>
  Scenario A of the specification: host check true, a user without primary address, the
  backend fetch fails, the wallet returns one account.
\<close>

definition scenarioA :: env where
  "scenarioA = \<lparr>isInMiniApp = Returns True, sdkContext = Returns (Some userA),
     quickAuthFetch = Throws NonError,
     ethProvider = Some (Returns (Some [''0xABCDEF0123456789ABCDEF0123456789ABCDEF01''])),
     connectors = [''farcasterMiniApp''], isConnected = False, walletAddress = None,
     cancelledDuring = None\<rparr>"

text \<open>Scenario A with the cleanup running while the wallet access request is pending.\<close>

definition cancelledA :: env where
  "cancelledA = scenarioA\<lparr>cancelledDuring := Some EthRequestAccounts\<rparr>"

text \<open>
  The attempt started by the re-triggered effect: the wallet signal now reports another
  account, which the provider returns as well.
\<close>

definition newAttempt :: env where
  "newAttempt = scenarioA\<lparr>
     ethProvider := Some (Returns (Some [''0x1111111111111111111111111111111111111111''])),
     isConnected := True,
     walletAddress := Some ''0x1111111111111111111111111111111111111111''\<rparr>"

text \<open>Scenario B: the host context carries no user.\<close>

definition scenarioB :: env where
  "scenarioB = scenarioA\<lparr>sdkContext := Returns None\<rparr>"

text \<open>Scenario C: outside the host, no wallet connected.\<close>

definition scenarioC :: env where
  "scenarioC = \<lparr>isInMiniApp = Returns False, sdkContext = Returns None,
     quickAuthFetch = Throws NonError, ethProvider = None, connectors = [],
     isConnected = False, walletAddress = None, cancelledDuring = None\<rparr>"

text \<open>Scenario D: as scenario A, but the wallet access request throws.\<close>

definition scenarioD :: env where
  "scenarioD = scenarioA\<lparr>ethProvider := Some (Throws (ErrorObj ''transport fault''))\<rparr>"

text \<open>The detector call throws while wagmi reports a connected wallet.\<close>

definition detectorFault :: env where
  "detectorFault = scenarioC\<lparr>isInMiniApp := Throws (ErrorObj ''detector fault''),
     isConnected := True,
     walletAddress := Some ''0x1111111111111111111111111111111111111111''\<rparr>"

text \<open>The provider answers with a string that is no 20-byte address.\<close>

definition malformedAccount :: env where
  "malformedAccount = scenarioA\<lparr>ethProvider := Some (Returns (Some [''0x123'']))\<rparr>"

text \<open>Outside the host, wagmi reports \<open>isConnected\<close> without an address.\<close>

definition connectedNoAddress :: env where
  "connectedNoAddress = scenarioC\<lparr>isConnected := True\<rparr>"

text \<open>Scenario A with a wallet connection already established through wagmi.\<close>

definition alreadyConnected :: env where
  "alreadyConnected = scenarioA\<lparr>isConnected := True,
     walletAddress := Some ''0x1111111111111111111111111111111111111111''\<rparr>"

text \<open>A host user with a primary address whose wallet access request is declined.\<close>

definition hintedUser :: FarcasterUser where
  "hintedUser = userA\<lparr>primaryAddress := Some ''0x2222222222222222222222222222222222222222''\<rparr>"

definition hintedDeclined :: env where
  "hintedDeclined = scenarioA\<lparr>sdkContext := Returns (Some hintedUser),
     ethProvider := Some (Throws (ErrorObj ''User rejected the request''))\<rparr>"

section \<open>Facts about the parts of \<open>initializeUser\<close>\<close>

lemma run_effects_append: "run_effects (xs @ ys) s = run_effects ys (run_effects xs s)"
  by (induction xs arbitrary: s) simp_all

lemma live_then_stale: "live_effects e @ stale_effects e = initializeUser e"
  by (simp add: live_effects_def stale_effects_def before_await_def after_await_def
      split: option.splits)

lemma fetch_silent: "run_effects (fst (fetchApiUserData e)) s = s"
  by (simp add: fetchApiUserData_def split: outcome.splits)

lemma autoConnect_silent: "run_effects (fst (autoConnect e h)) s = s"
  by (simp add: autoConnect_def activateConnector_def
      split: outcome.splits option.splits list.splits)

lemma userFlow_final:
  "run_effects (userFlow e u) s =
     hostRecord u (snd (autoConnect e (addressHint u (snd (fetchApiUserData e)))))"
  by (simp add: userFlow_def run_effects_append fetch_silent autoConnect_silent
      split: prod.splits)

lemma fetch_no_ready: "Ready \<notin> set (fst (fetchApiUserData e))"
  by (simp add: fetchApiUserData_def split: outcome.splits)

lemma autoConnect_no_ready: "Ready \<notin> set (fst (autoConnect e h))"
  by (simp add: autoConnect_def activateConnector_def
      split: outcome.splits option.splits list.splits)

lemma fetch_no_commit: "SetUserData r \<notin> set (fst (fetchApiUserData e))"
  by (simp add: fetchApiUserData_def split: outcome.splits)

lemma autoConnect_no_commit: "SetUserData r \<notin> set (fst (autoConnect e h))"
  by (simp add: autoConnect_def activateConnector_def
      split: outcome.splits option.splits list.splits)

lemma userFlow_ready_once: "count_list (userFlow e u) Ready = 1"
  using fetch_no_ready [of e] autoConnect_no_ready [of e]
  by (simp add: userFlow_def split: prod.splits) (metis count_list_0_iff fst_conv)

lemma initializeUser_ready_count:
  "count_list (initializeUser e) Ready =
     (if isInMiniApp e = Returns True \<and> (\<exists>u. sdkContext e = Returns (Some u))
         \<and> isMounted e SdkContext
      then 1 else 0)"
  by (auto simp: initializeUser_def hostFlow_def userFlow_ready_once
      split: outcome.splits option.splits bool.splits)

lemma initializeUser_host_user:
  "isInMiniApp e = Returns True \<Longrightarrow> sdkContext e = Returns (Some u)
   \<Longrightarrow> isMounted e SdkContext
   \<Longrightarrow> initializeUser e = SetLoading # Await IsInMiniApp # Await SdkContext # userFlow e u"
  by (simp add: initializeUser_def hostFlow_def)

lemma initializeUser_host_user_final:
  "isInMiniApp e = Returns True \<Longrightarrow> sdkContext e = Returns (Some u)
   \<Longrightarrow> isMounted e SdkContext
   \<Longrightarrow> run_effects (initializeUser e) s =
       hostRecord u (snd (autoConnect e (addressHint u (snd (fetchApiUserData e)))))"
  by (simp add: initializeUser_host_user userFlow_final)

lemma userFlow_decomp:
  "userFlow e u =
     fst (fetchApiUserData e)
     @ fst (autoConnect e (addressHint u (snd (fetchApiUserData e))))
     @ [SetUserData (hostRecord u (snd (autoConnect e (addressHint u (snd (fetchApiUserData e)))))),
        Ready]"
  by (simp add: userFlow_def split: prod.splits)

lemma userFlow_commits:
  "SetUserData r \<in> set (userFlow e u) \<Longrightarrow> \<exists>a. r = hostRecord u a"
  by (auto simp: userFlow_decomp fetch_no_commit autoConnect_no_commit)

lemma initializeUser_commits:
  assumes "SetUserData r \<in> set (initializeUser e)"
  shows "(\<exists>u a. r = hostRecord u a) \<or> (\<exists>b m. r = errorRecord b m) \<or> r = browserRecord e"
  using assms
  by (auto simp: initializeUser_def hostFlow_def
      split: outcome.splits option.splits bool.splits if_splits)
    (metis userFlow_commits)

lemma fetch_no_request: "Await EthRequestAccounts \<notin> set (fst (fetchApiUserData e))"
  by (simp add: fetchApiUserData_def split: outcome.splits)

lemma autoConnect_one_request:
  "ethProvider e = Some req \<Longrightarrow>
     count_list (fst (autoConnect e h)) (Await EthRequestAccounts) = 1"
  by (simp add: autoConnect_def activateConnector_def
      split: outcome.splits option.splits list.splits)

lemma autoConnect_connect:
  "Connect c \<in> set (fst (autoConnect e h)) \<Longrightarrow> \<not> isConnected e"
  by (simp add: autoConnect_def activateConnector_def
      split: outcome.splits option.splits list.splits if_splits)

lemma fetch_no_connect: "Connect c \<notin> set (fst (fetchApiUserData e))"
  by (simp add: fetchApiUserData_def split: outcome.splits)

lemma userFlow_one_request:
  "ethProvider e = Some req \<Longrightarrow> count_list (userFlow e u) (Await EthRequestAccounts) = 1"
  using fetch_no_request [of e]
  by (simp add: userFlow_decomp autoConnect_one_request count_list_0_iff)

lemma userFlow_connect: "Connect c \<in> set (userFlow e u) \<Longrightarrow> \<not> isConnected e"
  using autoConnect_connect [of c e]
  by (auto simp: userFlow_decomp fetch_no_connect)

lemma truthy_addressHint:
  "truthy (addressHint u (snd (fetchApiUserData e))) \<longleftrightarrow>
     truthy (FarcasterUser.primaryAddress u)
     \<or> (\<exists>a. quickAuthFetch e = Returns (Response True (Returns (ApiObject a))) \<and> truthy a)"
  apply (cases "quickAuthFetch e")
   apply (simp add: addressHint_def fetchApiUserData_def js_or_def api_primaryAddress_def truthy_def)
  subgoal for res
    apply (cases res)
    subgoal for b j
      apply (cases j)
       apply (simp add: addressHint_def fetchApiUserData_def js_or_def api_primaryAddress_def truthy_def)
      subgoal for d
        by (cases d) (auto simp: addressHint_def fetchApiUserData_def js_or_def api_primaryAddress_def truthy_def)
      done
    done
  done

lemma autoConnect_no_connect_without_accounts:
  "ethProvider e = None \<or> ethProvider e = Some (Throws x) \<or> ethProvider e = Some (Returns None)
     \<or> ethProvider e = Some (Returns (Some []))
   \<Longrightarrow> autoConnect e h = (if ethProvider e = None then [] else
          if ethProvider e = Some (Throws x) then [Await EthRequestAccounts, ConsoleWarn]
          else [Await EthRequestAccounts], h)"
  by (auto simp: autoConnect_def)

section \<open>The readiness signal\<close>

text \<open>
  Three parts of the readiness contract hold for every attempt: the signal is sent at most
  once, never when the detector does not answer \<open>true\<close>, and only as the effect that
  directly follows the commit of a host record.
\<close>

lemma ready_at_most_once: "count_list (initializeUser e) Ready \<le> 1"
  by (simp add: initializeUser_ready_count)

lemma ready_never_standalone:
  "isInMiniApp e \<noteq> Returns True \<Longrightarrow> Ready \<notin> set (initializeUser e)"
  using initializeUser_ready_count [of e] by (simp add: count_list_0_iff)

lemma userFlow_ends_with_commit:
  "\<exists>pre a. userFlow e u = pre @ [SetUserData (hostRecord u a), Ready] \<and> Ready \<notin> set pre"
proof -
  obtain fx d where f: "fetchApiUserData e = (fx, d)"
    by (cases "fetchApiUserData e")
  obtain wx a where w: "autoConnect e (addressHint u d) = (wx, a)"
    by (cases "autoConnect e (addressHint u d)")
  have "Ready \<notin> set fx"
    using fetch_no_ready [of e] f by simp
  moreover have "Ready \<notin> set wx"
    using autoConnect_no_ready [of e "addressHint u d"] w by simp
  moreover have "userFlow e u = (fx @ wx) @ [SetUserData (hostRecord u a), Ready]"
    by (simp add: userFlow_def f w)
  ultimately show ?thesis
    by (metis Un_iff set_append)
qed

lemma ready_only_after_commit:
  assumes "Ready \<in> set (initializeUser e)"
  shows "\<exists>pre u a. initializeUser e = pre @ [SetUserData (hostRecord u a), Ready]
           \<and> Ready \<notin> set pre"
proof -
  from assms have c: "count_list (initializeUser e) Ready \<noteq> 0"
    by (simp add: count_list_0_iff)
  then obtain u where h: "isInMiniApp e = Returns True" "sdkContext e = Returns (Some u)"
      "isMounted e SdkContext"
    by (auto simp: initializeUser_ready_count split: if_splits)
  obtain pre a where p: "userFlow e u = pre @ [SetUserData (hostRecord u a), Ready]"
      "Ready \<notin> set pre"
    using userFlow_ends_with_commit by blast
  have "initializeUser e =
      (SetLoading # Await IsInMiniApp # Await SdkContext # pre)
        @ [SetUserData (hostRecord u a), Ready]"
    by (simp add: initializeUser_def hostFlow_def h p)
  moreover have "Ready \<notin> set (SetLoading # Await IsInMiniApp # Await SdkContext # pre)"
    using p by simp
  ultimately show ?thesis by blast
qed

text \<open>
  C1. The readiness signal is sent at most once per host-mode attempt, never in standalone
  mode, never before the host record is committed, and never by an attempt that was
  superseded before the signal point. The last part fails: \<open>isMounted\<close> is read on line 92,
  before the backend fetch and the wallet access request are awaited, and not again before
  \<open>sdk.actions.ready()\<close> on line 149. In scenario A with the cleanup running while the
  wallet access request is pending, \<open>isMounted\<close> is false once the request settles and the
  attempt still sends the signal.
\<close>

theorem ready_fired_by_superseded_attempt:
  "\<not> isMounted cancelledA EthRequestAccounts \<and> Ready \<in> set (stale_effects cancelledA)"
  by (simp add: cancelledA_def scenarioA_def userA_def stale_effects_def after_await_def
      await_pos_def isMounted_def initializeUser_def hostFlow_def userFlow_def fetchApiUserData_def
      autoConnect_def activateConnector_def addressHint_def js_or_def truthy_def
      api_primaryAddress_def)

section \<open>Cancelled attempts\<close>

text \<open>
  C2. The late results of a cancelled attempt are discarded and do not change the record of
  the new attempt. The code breaks this: after \<open>isMounted\<close> was read on line 92 the attempt
  awaits the backend fetch and the wallet access request and then calls \<open>setUserData\<close>
  (line 136) without reading the flag again. Attempt \<open>cancelledA\<close> is superseded while its
  wallet access request is pending; the new attempt commits the record with the address
  \<open>0x1111...\<close>; when the stale request settles the old attempt replaces that record with
  its own.
\<close>

theorem stale_commit_overwrites_new_attempt:
  "run_effects (live_effects cancelledA @ initializeUser newAttempt) initial_state
     = hostRecord userA (Some ''0x1111111111111111111111111111111111111111'')
   \<and> run_effects (superseded_schedule cancelledA newAttempt) initial_state
     = hostRecord userA (Some ''0xABCDEF0123456789ABCDEF0123456789ABCDEF01'')"
  by (simp add: superseded_schedule_def live_effects_def stale_effects_def before_await_def
      after_await_def await_pos_def cancelledA_def newAttempt_def scenarioA_def initializeUser_def
      hostFlow_def userFlow_def fetchApiUserData_def autoConnect_def activateConnector_def
      isMounted_def)

section \<open>The address that is stored\<close>

text \<open>
  C3, as stated: the address of the final record is lowercase; scenario A stores the
  account \<open>0xABCDEF0123456789ABCDEF0123456789ABCDEF01\<close> lowercased. The hook applies no
  case conversion anywhere: the record holds the string as the provider returned it.
\<close>

theorem address_not_lowercased:
  "address (run_effects (initializeUser scenarioA) initial_state)
     = Some ''0xABCDEF0123456789ABCDEF0123456789ABCDEF01''
   \<and> \<not> lowercase_address ''0xABCDEF0123456789ABCDEF0123456789ABCDEF01''"
  by (simp add: scenarioA_def initializeUser_def hostFlow_def userFlow_def
      fetchApiUserData_def autoConnect_def activateConnector_def isMounted_def
      hostRecord_def lowercase_address_def is_lower_hex_char_def)

text \<open>
  C3, amended: in host mode, with the user present and the attempt live on line 92, when the
  wallet access request returns at least one account the final record stores the first
  account exactly as returned.
\<close>

theorem address_is_first_account_verbatim:
  assumes "isInMiniApp e = Returns True" and "sdkContext e = Returns (Some u)"
    and "isMounted e SdkContext" and "ethProvider e = Some (Returns (Some (a # as)))"
  shows "address (run_effects (initializeUser e) s) = Some a"
  using assms by (simp add: initializeUser_host_user_final autoConnect_def hostRecord_def)

theorem address_is_first_account_verbatim_witness:
  "isInMiniApp scenarioA = Returns True \<and> sdkContext scenarioA = Returns (Some userA)
   \<and> isMounted scenarioA SdkContext
   \<and> ethProvider scenarioA
       = Some (Returns (Some (''0xABCDEF0123456789ABCDEF0123456789ABCDEF01'' # [])))
   \<and> address (run_effects (initializeUser scenarioA) initial_state)
       = Some ''0xABCDEF0123456789ABCDEF0123456789ABCDEF01''"
proof -
  have h1: "isInMiniApp scenarioA = Returns True"
    and h2: "sdkContext scenarioA = Returns (Some userA)"
    and h3: "isMounted scenarioA SdkContext"
    and h4: "ethProvider scenarioA
       = Some (Returns (Some (''0xABCDEF0123456789ABCDEF0123456789ABCDEF01'' # [])))"
    by (simp_all add: scenarioA_def isMounted_def)
  from address_is_first_account_verbatim [OF h1 h2 h3 h4, of initial_state] h1 h2 h3 h4
  show ?thesis by blast
qed

section \<open>A fault of the detector\<close>

text \<open>
  C4, as stated: when \<open>sdk.isInMiniApp()\<close> throws, resolution goes on as in standalone mode
  with the wallet signal and ends without a terminal error. The outer \<open>catch\<close> (lines
  180-190) instead commits the error record: with a wallet connected through wagmi the
  final record has the error set, no address and \<open>isWalletConnected = false\<close>.
\<close>

theorem detector_fault_is_terminal_error:
  "isConnected detectorFault
   \<and> walletAddress detectorFault = Some ''0x1111111111111111111111111111111111111111''
   \<and> error (run_effects (initializeUser detectorFault) initial_state)
       = Some ''Failed to initialize user data''
   \<and> address (run_effects (initializeUser detectorFault) initial_state) = None
   \<and> \<not> isWalletConnected (run_effects (initializeUser detectorFault) initial_state)"
  by (simp add: detectorFault_def scenarioC_def initializeUser_def isMounted_def
      errorRecord_def)

text \<open>
  C4, amended: when the detector call throws and the attempt is still live, the fault is
  logged and the attempt ends by committing the record with \<open>isMiniApp = false\<close>,
  \<open>isLoading = false\<close>, \<open>isWalletConnected = false\<close>, no address and the error
  \<open>Failed to initialize user data\<close>; the wallet signal is not read.
\<close>

theorem detector_fault_commits_error_record:
  assumes "isInMiniApp e = Throws x" and "isMounted e IsInMiniApp"
  shows "initializeUser e = [SetLoading, Await IsInMiniApp, ConsoleError,
            SetUserData (errorRecord False ''Failed to initialize user data'')]
         \<and> run_effects (initializeUser e) s =
             \<lparr>address = None, fid = None, username = None, displayName = None, pfpUrl = None,
              location = None, isMiniApp = False, isLoading = False,
              isWalletConnected = False, error = Some ''Failed to initialize user data''\<rparr>"
  using assms by (simp add: initializeUser_def errorRecord_def)

theorem detector_fault_commits_error_record_witness:
  "isInMiniApp detectorFault = Throws (ErrorObj ''detector fault'')
   \<and> isMounted detectorFault IsInMiniApp
   \<and> initializeUser detectorFault = [SetLoading, Await IsInMiniApp, ConsoleError,
            SetUserData (errorRecord False ''Failed to initialize user data'')]
   \<and> run_effects (initializeUser detectorFault) initial_state =
             \<lparr>address = None, fid = None, username = None, displayName = None, pfpUrl = None,
              location = None, isMiniApp = False, isLoading = False,
              isWalletConnected = False, error = Some ''Failed to initialize user data''\<rparr>"
proof -
  have h1: "isInMiniApp detectorFault = Throws (ErrorObj ''detector fault'')"
    and h2: "isMounted detectorFault IsInMiniApp"
    by (simp_all add: detectorFault_def scenarioC_def isMounted_def)
  from detector_fault_commits_error_record [OF h1 h2, of initial_state] h1 h2
  show ?thesis by blast
qed

section \<open>A fault of the wallet access request\<close>

text \<open>
  C5, as stated: in scenario D (identity present, wallet access request throws) the final
  record has the error field set to the wallet fault. The inner \<open>catch\<close> (lines 131-134)
  only logs a warning; the committed record has no error.
\<close>

theorem wallet_fault_sets_no_error:
  "error (run_effects (initializeUser scenarioD) initial_state) = None"
  by (simp add: scenarioD_def scenarioA_def initializeUser_def hostFlow_def userFlow_def
      fetchApiUserData_def autoConnect_def isMounted_def hostRecord_def)

text \<open>
  C5, amended: in host mode, when the identity fetch succeeds and the wallet access request
  throws, the final record has the identity populated, the address equal to the address
  hint of line 110 (absent when there is none), \<open>isWalletConnected\<close> true exactly when
  that hint is truthy, \<open>isLoading = false\<close> and no error, and readiness is signalled once.
\<close>

theorem wallet_fault_keeps_hint_without_error:
  assumes "isInMiniApp e = Returns True" and "sdkContext e = Returns (Some u)"
    and "isMounted e SdkContext" and "ethProvider e = Some (Throws x)"
  shows "fid (run_effects (initializeUser e) s) = Some (FarcasterUser.fid u)
       \<and> username (run_effects (initializeUser e) s) = FarcasterUser.username u
       \<and> displayName (run_effects (initializeUser e) s) = FarcasterUser.displayName u
       \<and> pfpUrl (run_effects (initializeUser e) s) = FarcasterUser.pfpUrl u
       \<and> location (run_effects (initializeUser e) s) = FarcasterUser.location u
       \<and> address (run_effects (initializeUser e) s) = addressHint u (snd (fetchApiUserData e))
       \<and> isWalletConnected (run_effects (initializeUser e) s)
           = truthy (addressHint u (snd (fetchApiUserData e)))
       \<and> isMiniApp (run_effects (initializeUser e) s)
       \<and> \<not> isLoading (run_effects (initializeUser e) s)
       \<and> error (run_effects (initializeUser e) s) = None
       \<and> count_list (initializeUser e) Ready = 1"
  using assms
  by (simp add: initializeUser_host_user_final initializeUser_ready_count autoConnect_def
      hostRecord_def)

theorem wallet_fault_keeps_hint_without_error_witness:
  "isInMiniApp scenarioD = Returns True \<and> sdkContext scenarioD = Returns (Some userA)
   \<and> isMounted scenarioD SdkContext
   \<and> ethProvider scenarioD = Some (Throws (ErrorObj ''transport fault''))
   \<and> fid (run_effects (initializeUser scenarioD) initial_state) = Some (FarcasterUser.fid userA)
   \<and> address (run_effects (initializeUser scenarioD) initial_state)
       = addressHint userA (snd (fetchApiUserData scenarioD))
   \<and> error (run_effects (initializeUser scenarioD) initial_state) = None
   \<and> count_list (initializeUser scenarioD) Ready = 1"
proof -
  have h1: "isInMiniApp scenarioD = Returns True"
    and h2: "sdkContext scenarioD = Returns (Some userA)"
    and h3: "isMounted scenarioD SdkContext"
    and h4: "ethProvider scenarioD = Some (Throws (ErrorObj ''transport fault''))"
    by (simp_all add: scenarioD_def scenarioA_def isMounted_def)
  from wallet_fault_keeps_hint_without_error [OF h1 h2 h3 h4, of initial_state] h1 h2 h3 h4
  show ?thesis by blast
qed

section \<open>Wallet connection and the stored address\<close>

text \<open>
  C6, as stated: in every final record, \<open>isWalletConnected\<close> implies that the address is
  present and is \<open>0x\<close> followed by 40 hexadecimal characters. The hook never inspects the
  strings it stores: the first account of the provider is committed as it is. Outside the
  host \<open>isWalletConnected\<close> is wagmi's \<open>isConnected\<close>, whether or not an address came
  with it.
\<close>

theorem wallet_connected_without_well_formed_address:
  "isWalletConnected (run_effects (initializeUser malformedAccount) initial_state)
   \<and> address (run_effects (initializeUser malformedAccount) initial_state) = Some ''0x123''
   \<and> \<not> well_formed_address ''0x123''
   \<and> isWalletConnected (run_effects (initializeUser connectedNoAddress) initial_state)
   \<and> address (run_effects (initializeUser connectedNoAddress) initial_state) = None"
  by (simp add: malformedAccount_def connectedNoAddress_def scenarioA_def scenarioC_def
      initializeUser_def hostFlow_def userFlow_def fetchApiUserData_def autoConnect_def
      activateConnector_def isMounted_def hostRecord_def browserRecord_def truthy_def
      well_formed_address_def)

text \<open>
  C6, amended: in every record an attempt commits, if \<open>isWalletConnected\<close> is true and the
  record is a host record, or the wallet signal carries a non-empty address, then the
  address is present and non-empty. No format is checked.
\<close>

theorem wallet_connected_has_address:
  assumes "SetUserData r \<in> set (initializeUser e)" and "isWalletConnected r"
    and "isMiniApp r \<or> truthy (walletAddress e)"
  shows "\<exists>a. address r = Some a \<and> a \<noteq> []"
  using initializeUser_commits [OF assms(1)] assms(2,3)
  by (auto simp: hostRecord_def errorRecord_def browserRecord_def truthy_def
      split: option.splits)

theorem wallet_connected_has_address_witness:
  "SetUserData (hostRecord userA (Some ''0x123'')) \<in> set (initializeUser malformedAccount)
   \<and> isWalletConnected (hostRecord userA (Some ''0x123''))
   \<and> isMiniApp (hostRecord userA (Some ''0x123''))
   \<and> (\<exists>a. address (hostRecord userA (Some ''0x123'')) = Some a \<and> a \<noteq> [])"
proof -
  have h1: "SetUserData (hostRecord userA (Some ''0x123'')) \<in> set (initializeUser malformedAccount)"
    by (simp add: malformedAccount_def scenarioA_def initializeUser_def hostFlow_def
        userFlow_def fetchApiUserData_def autoConnect_def activateConnector_def isMounted_def)
  have h2: "isWalletConnected (hostRecord userA (Some ''0x123''))"
    and h3: "isMiniApp (hostRecord userA (Some ''0x123''))"
    by (simp_all add: hostRecord_def truthy_def)
  from wallet_connected_has_address [OF h1 h2 disjI1 [OF h3]] h1 h2 h3
  show ?thesis by blast
qed

section \<open>No host user\<close>

text \<open>
  C7. In host mode with the host context carrying no user, no wallet access request is
  made and readiness is never signalled; the attempt, while live, ends by committing the
  record with \<open>isLoading = false\<close>, the error \<open>Unable to get user data from Farcaster\<close>,
  and neither identity nor address.
\<close>

theorem identity_absent_terminates:
  assumes "isInMiniApp e = Returns True" and "sdkContext e = Returns None"
  shows "Await EthRequestAccounts \<notin> set (initializeUser e)
       \<and> Ready \<notin> set (initializeUser e)
       \<and> (isMounted e SdkContext \<longrightarrow>
            run_effects (initializeUser e) s =
              \<lparr>address = None, fid = None, username = None, displayName = None,
               pfpUrl = None, location = None, isMiniApp = True, isLoading = False,
               isWalletConnected = False,
               error = Some ''Unable to get user data from Farcaster''\<rparr>)"
  using assms by (simp add: initializeUser_def hostFlow_def errorRecord_def)

theorem identity_absent_terminates_witness:
  "isInMiniApp scenarioB = Returns True \<and> sdkContext scenarioB = Returns None
   \<and> isMounted scenarioB SdkContext
   \<and> Await EthRequestAccounts \<notin> set (initializeUser scenarioB)
   \<and> Ready \<notin> set (initializeUser scenarioB)
   \<and> run_effects (initializeUser scenarioB) initial_state =
              \<lparr>address = None, fid = None, username = None, displayName = None,
               pfpUrl = None, location = None, isMiniApp = True, isLoading = False,
               isWalletConnected = False,
               error = Some ''Unable to get user data from Farcaster''\<rparr>"
proof -
  have h1: "isInMiniApp scenarioB = Returns True"
    and h2: "sdkContext scenarioB = Returns None"
    and h3: "isMounted scenarioB SdkContext"
    by (simp_all add: scenarioB_def scenarioA_def isMounted_def)
  from identity_absent_terminates [OF h1 h2, of initial_state] h1 h2 h3
  show ?thesis by blast
qed

section \<open>Requests while a wallet is connected\<close>

text \<open>
  C8, as stated: every wallet access request made while a connection with an address is
  established short-circuits and issues no account-access request. \<open>initializeUser\<close> does
  issue the request in that situation, and stores the account the provider returns rather
  than the address of the existing connection.
\<close>

theorem request_issued_although_connected:
  "isConnected alreadyConnected \<and> truthy (walletAddress alreadyConnected)
   \<and> Await EthRequestAccounts \<in> set (initializeUser alreadyConnected)
   \<and> walletAddress alreadyConnected = Some ''0x1111111111111111111111111111111111111111''
   \<and> address (run_effects (initializeUser alreadyConnected) initial_state)
       = Some ''0xABCDEF0123456789ABCDEF0123456789ABCDEF01''"
  by (simp add: alreadyConnected_def scenarioA_def initializeUser_def hostFlow_def
      userFlow_def fetchApiUserData_def autoConnect_def activateConnector_def isMounted_def
      hostRecord_def truthy_def)

text \<open>
  C8, amended: \<open>connectWallet\<close> called while wagmi reports a connection with an address
  returns that address with no effect at all, so without a request to the provider. The
  host path of \<open>initializeUser\<close> in the same situation issues exactly one account-access
  request when a provider exists, and only leaves out the activation of the connector.
\<close>

theorem connectWallet_short_circuits:
  assumes "isConnected e" and "truthy (walletAddress e)"
  shows "connectWallet e = ([], walletAddress e)
       \<and> (isInMiniApp e = Returns True \<and> sdkContext e = Returns (Some u)
            \<and> isMounted e SdkContext \<and> ethProvider e = Some req \<longrightarrow>
          count_list (initializeUser e) (Await EthRequestAccounts) = 1
          \<and> (\<forall>c. Connect c \<notin> set (initializeUser e)))"
  using assms userFlow_connect [of _ e u]
  by (auto simp: connectWallet_def initializeUser_host_user userFlow_one_request)

theorem connectWallet_short_circuits_witness:
  "isConnected alreadyConnected \<and> truthy (walletAddress alreadyConnected)
   \<and> isInMiniApp alreadyConnected = Returns True
   \<and> sdkContext alreadyConnected = Returns (Some userA)
   \<and> isMounted alreadyConnected SdkContext
   \<and> ethProvider alreadyConnected
       = Some (Returns (Some [''0xABCDEF0123456789ABCDEF0123456789ABCDEF01'']))
   \<and> connectWallet alreadyConnected = ([], walletAddress alreadyConnected)
   \<and> count_list (initializeUser alreadyConnected) (Await EthRequestAccounts) = 1
   \<and> (\<forall>c. Connect c \<notin> set (initializeUser alreadyConnected))"
proof -
  have h1: "isConnected alreadyConnected"
    and h2: "truthy (walletAddress alreadyConnected)"
    and h3: "isInMiniApp alreadyConnected = Returns True"
    and h4: "sdkContext alreadyConnected = Returns (Some userA)"
    and h5: "isMounted alreadyConnected SdkContext"
    and h6: "ethProvider alreadyConnected
       = Some (Returns (Some [''0xABCDEF0123456789ABCDEF0123456789ABCDEF01'']))"
    by (simp_all add: alreadyConnected_def scenarioA_def isMounted_def truthy_def)
  from connectWallet_short_circuits [OF h1 h2, of userA
      "Returns (Some [''0xABCDEF0123456789ABCDEF0123456789ABCDEF01''])"] h1 h2 h3 h4 h5 h6
  show ?thesis by blast
qed

section \<open>Identity outside the host\<close>

text \<open>
  C9. In every reachable state of the hook, if \<open>isMiniApp\<close> is false then \<open>fid\<close>,
  \<open>username\<close>, \<open>displayName\<close>, \<open>pfpUrl\<close> and \<open>location\<close> are absent.
\<close>

theorem standalone_has_no_identity:
  assumes "reachable s" and "\<not> isMiniApp s"
  shows "fid s = None \<and> username s = None \<and> displayName s = None \<and> pfpUrl s = None
       \<and> location s = None"
  using assms
proof (induction rule: reachable.induct)
  case init
  show ?case by (simp add: initial_state_def)
next
  case (step s x e)
  show ?case
  proof (cases x)
    case SetLoading
    with step show ?thesis by simp
  next
    case (SetUserData r)
    with step.hyps(2) have "(\<exists>u a. r = hostRecord u a) \<or> (\<exists>b m. r = errorRecord b m)
        \<or> r = browserRecord e"
      using initializeUser_commits by blast
    with step.prems SetUserData show ?thesis
      by (auto simp: hostRecord_def errorRecord_def browserRecord_def)
  qed (use step in simp_all)
qed

theorem standalone_has_no_identity_witness:
  "reachable (browserRecord scenarioC) \<and> \<not> isMiniApp (browserRecord scenarioC)
   \<and> fid (browserRecord scenarioC) = None \<and> username (browserRecord scenarioC) = None
   \<and> displayName (browserRecord scenarioC) = None \<and> pfpUrl (browserRecord scenarioC) = None
   \<and> location (browserRecord scenarioC) = None"
proof -
  have "SetUserData (browserRecord scenarioC) \<in> set (initializeUser scenarioC)"
    by (simp add: initializeUser_def scenarioC_def isMounted_def)
  from reachable.step [OF reachable.init this]
  have h1: "reachable (browserRecord scenarioC)" by simp
  have h2: "\<not> isMiniApp (browserRecord scenarioC)"
    by (simp add: browserRecord_def)
  from standalone_has_no_identity [OF h1 h2] h1 h2
  show ?thesis by blast
qed

section \<open>The address hint\<close>

text \<open>
  C10. In host mode, when the host profile or the backend profile supplies a primary address
  (the hint of line 110 is truthy) and the wallet access request throws, is declined,
  returns no accounts, or no provider exists, the final record has the hint as address and
  \<open>isWalletConnected = true\<close>, and no connector is activated.
\<close>

theorem hint_suffices_for_walletConnected:
  assumes "isInMiniApp e = Returns True" and "sdkContext e = Returns (Some u)"
    and "isMounted e SdkContext"
    and "truthy (addressHint u (snd (fetchApiUserData e)))"
    and "ethProvider e = None \<or> ethProvider e = Some (Throws x)
         \<or> ethProvider e = Some (Returns None) \<or> ethProvider e = Some (Returns (Some []))"
  shows "address (run_effects (initializeUser e) s) = addressHint u (snd (fetchApiUserData e))
       \<and> isWalletConnected (run_effects (initializeUser e) s)
       \<and> (\<forall>c. Connect c \<notin> set (initializeUser e))"
proof -
  let ?h = "addressHint u (snd (fetchApiUserData e))"
  have ac: "snd (autoConnect e ?h) = ?h" "\<And>c. Connect c \<notin> set (fst (autoConnect e ?h))"
    using autoConnect_no_connect_without_accounts [OF assms(5), of ?h] by (simp_all split: if_splits)
  have "run_effects (initializeUser e) s = hostRecord u ?h"
    using assms(1-3) ac(1) by (simp add: initializeUser_host_user_final)
  moreover have "\<And>c. Connect c \<notin> set (initializeUser e)"
    using assms(1-3) ac(2) fetch_no_connect [of _ e]
    by (simp add: initializeUser_host_user userFlow_decomp)
  ultimately show ?thesis
    using assms(4) by (simp add: hostRecord_def)
qed

theorem hint_suffices_for_walletConnected_witness:
  "isInMiniApp hintedDeclined = Returns True
   \<and> sdkContext hintedDeclined = Returns (Some hintedUser)
   \<and> isMounted hintedDeclined SdkContext
   \<and> truthy (addressHint hintedUser (snd (fetchApiUserData hintedDeclined)))
   \<and> ethProvider hintedDeclined = Some (Throws (ErrorObj ''User rejected the request''))
   \<and> addressHint hintedUser (snd (fetchApiUserData hintedDeclined))
       = Some ''0x2222222222222222222222222222222222222222''
   \<and> address (run_effects (initializeUser hintedDeclined) initial_state)
       = addressHint hintedUser (snd (fetchApiUserData hintedDeclined))
   \<and> isWalletConnected (run_effects (initializeUser hintedDeclined) initial_state)
   \<and> (\<forall>c. Connect c \<notin> set (initializeUser hintedDeclined))"
proof -
  have h1: "isInMiniApp hintedDeclined = Returns True"
    and h2: "sdkContext hintedDeclined = Returns (Some hintedUser)"
    and h3: "isMounted hintedDeclined SdkContext"
    and h5: "ethProvider hintedDeclined = Some (Throws (ErrorObj ''User rejected the request''))"
    by (simp_all add: hintedDeclined_def scenarioA_def isMounted_def)
  have h6: "addressHint hintedUser (snd (fetchApiUserData hintedDeclined))
       = Some ''0x2222222222222222222222222222222222222222''"
    by (simp add: addressHint_def hintedUser_def userA_def js_or_def truthy_def)
  have h4: "truthy (addressHint hintedUser (snd (fetchApiUserData hintedDeclined)))"
    by (simp add: h6 truthy_def)
  from hint_suffices_for_walletConnected [OF h1 h2 h3 h4 disjI2 [OF disjI1 [OF h5]], of initial_state]
    h1 h2 h3 h4 h5 h6
  show ?thesis by blast
qed

end
